theory Spec2Isabelle
  imports Main
begin

section \<open>DeclutterAI: the session state machine of \<open>src/App.tsx\<close>\<close>

text \<open>
  The component \<open>App\<close> keeps seven pieces of React state and changes them from four
  handlers: \<open>processImage\<close>, \<open>handleSendMessage\<close>, \<open>deleteImage\<close> and the click
  handler of a gallery tile. Each handler is a function from the state (and from what the
  outside world answers) to the next state. The two asynchronous handlers are split at
  their \<open>await\<close>: a part that runs when the handler is called and a part that runs when
  the awaited promise settles.

  JavaScript strings are modelled as \<open>string\<close>: one \<open>char\<close> per code unit, for the code
  units below 256.
\<close>

subsection \<open>Types\<close>

record AnalysisResult =
  id_field :: string
  imageUrl :: string
  timestamp :: int
  suggestions :: string
  roomType :: string

datatype role = User | Model

record ChatMessage =
  role :: role
  text_field :: string

text \<open>The value a rejected promise or a \<open>throw\<close> carries; the handlers never look at it.\<close>

datatype js_error = Thrown string

record AppState =
  images :: "AnalysisResult list"
  selectedImage :: "AnalysisResult option"
  isAnalyzing :: bool
  chatMessages :: "ChatMessage list"
  inputMessage :: string
  isChatting :: bool
  error :: "string option"

text \<open>The initial values of the \<open>useState\<close> calls.\<close>

definition initial :: AppState where
  "initial = \<lparr>images = [], selectedImage = None, isAnalyzing = False, chatMessages = [],
     inputMessage = [], isChatting = False, error = None\<rparr>"

definition MODEL_NAME :: string where
  "MODEL_NAME = ''gemini-3.1-pro-preview''"

subsection \<open>String operations of the JavaScript runtime\<close>

text \<open>
  \<open>WhiteSpace\<close> and \<open>LineTerminator\<close> of ECMAScript, among the code units below 256:
  TAB, VT, FF, SP, NBSP and LF, CR. The class \<open>\s\<close> and \<open>String.prototype.trim\<close> use
  both; the class \<open>.\<close> (without the flag \<open>s\<close>) excludes the line terminators.
\<close>

definition is_line_terminator :: "char \<Rightarrow> bool" where
  "is_line_terminator c = (c = CHR 0x0A \<or> c = CHR 0x0D)"

definition is_white_space :: "char \<Rightarrow> bool" where
  "is_white_space c =
     (c = CHR 0x09 \<or> c = CHR 0x0B \<or> c = CHR 0x0C \<or> c = CHR 0x20 \<or> c = CHR 0xA0
      \<or> is_line_terminator c)"

definition trim :: "string \<Rightarrow> string" where
  "trim s = rev (dropWhile is_white_space (rev (dropWhile is_white_space s)))"

text \<open>
  \<open>Canonicalize\<close> of a regular expression with the flag \<open>i\<close> and without \<open>u\<close>, as far
  as a pattern of ASCII characters can observe it: a lower-case ASCII letter becomes its
  upper-case letter, and no other code unit is mapped to an ASCII one.
\<close>

definition canonicalize :: "char \<Rightarrow> char" where
  "canonicalize c =
     (let n = (of_char c :: nat) in if 97 \<le> n \<and> n \<le> 122 then char_of (n - 32) else c)"

text \<open>The literal part of a pattern, matched at the start of the input; the rest is returned.\<close>

fun match_literal :: "string \<Rightarrow> string \<Rightarrow> string option" where
  "match_literal [] s = Some s"
| "match_literal (p # ps) [] = None"
| "match_literal (p # ps) (c # cs) =
     (if canonicalize p = canonicalize c then match_literal ps cs else None)"

text \<open>
  \<open>/Room Type:\s*(.*)/i\<close> tried at the start of the input. After the literal, \<open>\s*\<close> is
  greedy and takes every white-space character, line terminators included; \<open>(.*)\<close> then
  takes everything up to the next line terminator. Nothing follows the group, so the first
  greedy attempt is the match, and its result is capture group 1.
\<close>

definition match_here :: "string \<Rightarrow> string option" where
  "match_here s =
     (case match_literal ''Room Type:'' s of
        None \<Rightarrow> None
      | Some rest \<Rightarrow>
          Some (takeWhile (\<lambda>c. \<not> is_line_terminator c) (dropWhile is_white_space rest)))"

text \<open>
  \<open>resultText.match(/Room Type:\s*(.*)/i)\<close>: the pattern has no anchor and no flag
  \<open>g\<close>, so the start positions are tried from left to right and the first match wins.
  The result is capture group 1 of that match, \<open>None\<close> for \<open>null\<close>.
\<close>

fun roomTypeMatch :: "string \<Rightarrow> string option" where
  "roomTypeMatch [] = match_here []"
| "roomTypeMatch (c # cs) =
     (case match_here (c # cs) of Some cap \<Rightarrow> Some cap | None \<Rightarrow> roomTypeMatch cs)"

text \<open>\<open>a || b\<close> where \<open>a\<close> is a string or \<open>undefined\<close>: both \<open>undefined\<close> and \<open>""\<close> are falsy.\<close>

definition or_else :: "string option \<Rightarrow> string \<Rightarrow> string" where
  "or_else a b = (case a of None \<Rightarrow> b | Some s \<Rightarrow> if s = [] then b else s)"

subsection \<open>Requests to the AI service\<close>

datatype part = InlineData string "string option" | TextPart string

record Content =
  content_role :: "role option"
  parts :: "part list"

record GenerateContentConfig =
  systemInstruction :: "string option"

text \<open>The argument of \<open>ai.models.generateContent\<close>; \<open>config\<close> is an optional property.\<close>

record GenerateContentParameters =
  model :: string
  contents :: "Content list"
  config :: "GenerateContentConfig option"

text \<open>The argument of \<open>ai.chats.create\<close>, which builds a local chat object and sends nothing.\<close>

record CreateChatParameters =
  chat_model :: string
  chat_config :: "GenerateContentConfig option"

text \<open>The system instruction a \<open>generateContent\<close> request carries to the service, if any.\<close>

definition request_systemInstruction :: "GenerateContentParameters \<Rightarrow> string option" where
  "request_systemInstruction req =
     (case config req of None \<Rightarrow> None | Some c \<Rightarrow> systemInstruction c)"

subsection \<open>\<open>processImage\<close>\<close>

text \<open>
  What the outside world answers during one call of \<open>processImage\<close>: the promise of
  \<open>fileToBase64\<close>, \<open>URL.createObjectURL(file)\<close>, the promise of
  \<open>ai.models.generateContent\<close> (its \<open>response.text\<close>, which may be \<open>undefined\<close>),
  \<open>Math.random().toString(36).substring(7)\<close> and \<open>Date.now()\<close>.
\<close>

record AnalyzeEnv =
  file_type :: string
  fileToBase64 :: "js_error + string"
  createObjectURL :: string
  generateContent :: "js_error + string option"
  random_id :: string
  now :: int

text \<open>\<open>base64Data.split(',')[1]\<close>: the text between the first and the second comma.\<close>

definition split_comma_1 :: "string \<Rightarrow> string option" where
  "split_comma_1 s =
     (case dropWhile (\<lambda>c. c \<noteq> CHR '','') s of
        [] \<Rightarrow> None
      | _ # rest \<Rightarrow> Some (takeWhile (\<lambda>c. c \<noteq> CHR '','') rest))"

definition analysis_prompt :: string where
  "analysis_prompt =
     ''Analyze this room photo. Identify the room type and provide specific, actionable decluttering and organization suggestions. Format the response as follows:''
     @ [CHR 0x0A] @ ''Room Type: [Type]'' @ [CHR 0x0A, CHR 0x0A] @ ''Suggestions:''
     @ [CHR 0x0A] @ ''- [Suggestion 1]'' @ [CHR 0x0A] @ ''- [Suggestion 2]''
     @ [CHR 0x0A] @ ''...''"

definition analysis_request :: "AnalyzeEnv \<Rightarrow> string \<Rightarrow> GenerateContentParameters" where
  "analysis_request env base64Data =
     \<lparr>model = MODEL_NAME,
      contents = [\<lparr>content_role = None,
                   parts = [InlineData (file_type env) (split_comma_1 base64Data),
                            TextPart analysis_prompt]\<rparr>],
      config = None\<rparr>"

definition parse_roomType :: "string \<Rightarrow> string" where
  "parse_roomType resultText =
     (case roomTypeMatch resultText of Some cap \<Rightarrow> trim cap | None \<Rightarrow> ''Unknown Room'')"

definition newResult :: "AnalyzeEnv \<Rightarrow> string option \<Rightarrow> AnalysisResult" where
  "newResult env response_text =
     (let resultText = or_else response_text ''No suggestions generated.''
      in \<lparr>id_field = random_id env,
          imageUrl = createObjectURL env,
          timestamp = now env,
          suggestions = resultText,
          roomType = parse_roomType resultText\<rparr>)"

text \<open>
  The body of the \<open>try\<close> up to the construction of \<open>newResult\<close>: the first rejected
  promise leaves the block with its error.
\<close>

definition analysis_outcome :: "AnalyzeEnv \<Rightarrow> js_error + AnalysisResult" where
  "analysis_outcome env =
     (case fileToBase64 env of
        Inl e \<Rightarrow> Inl e
      | Inr base64Data \<Rightarrow>
          (case generateContent env of
             Inl e \<Rightarrow> Inl e
           | Inr response_text \<Rightarrow> Inr (newResult env response_text)))"

definition greeting :: "string \<Rightarrow> ChatMessage" where
  "greeting rt =
     \<lparr>role = Model,
      text_field = ''I've analyzed your '' @ rt
        @ ''. How can I help you further with organizing this space?''\<rparr>"

text \<open>Before the first \<open>await\<close>: \<open>setIsAnalyzing(true); setError(null)\<close>.\<close>

definition processImage_begin :: "AppState \<Rightarrow> AppState" where
  "processImage_begin st = st\<lparr>isAnalyzing := True, error := None\<rparr>"

text \<open>
  After the promises have settled: the rest of the \<open>try\<close>, or the \<open>catch\<close>, and then
  the \<open>finally\<close>. The state is the one at that moment; \<open>setImages\<close> gets an updater
  function and so reads it.
\<close>

definition processImage_settle :: "AppState \<Rightarrow> AnalyzeEnv \<Rightarrow> AppState" where
  "processImage_settle st env =
     (let st' =
        (case analysis_outcome env of
           Inr r \<Rightarrow>
             st\<lparr>images := r # images st,
                selectedImage := Some r,
                chatMessages := [greeting (roomType r)]\<rparr>
         | Inl err \<Rightarrow>
             st\<lparr>error := Some ''Failed to analyze image. Please check your API key and connection.''\<rparr>)
      in st'\<lparr>isAnalyzing := False\<rparr>)"

definition processImage :: "AppState \<Rightarrow> AnalyzeEnv \<Rightarrow> AppState" where
  "processImage st env = processImage_settle (processImage_begin st) env"

subsection \<open>\<open>handleSendMessage\<close>\<close>

definition chat_systemInstruction :: "AnalysisResult option \<Rightarrow> string" where
  "chat_systemInstruction sel =
     (case sel of
        Some img \<Rightarrow>
          ''You are an expert interior organizer. You are currently helping the user with their ''
          @ roomType img @ ''. Use the previous analysis as context: '' @ suggestions img
      | None \<Rightarrow>
          ''You are an expert interior organizer. Help the user declutter and organize their home.'')"

text \<open>The local \<open>chat\<close>: \<open>ai.chats.create(...)\<close>. No later statement reads it.\<close>

definition chat :: "AppState \<Rightarrow> CreateChatParameters" where
  "chat st =
     \<lparr>chat_model = MODEL_NAME,
      chat_config = Some \<lparr>systemInstruction = Some (chat_systemInstruction (selectedImage st))\<rparr>\<rparr>"

definition history :: "AppState \<Rightarrow> Content list" where
  "history st =
     map (\<lambda>m. \<lparr>content_role = Some (role m), parts = [TextPart (text_field m)]\<rparr>) (chatMessages st)"

text \<open>
  The one request of the handler, \<open>ai.models.generateContent({model, contents})\<close>, built
  from the state the handler was rendered with: the history does not yet hold the new
  user message, which is added as the last turn.
\<close>

definition chat_request :: "AppState \<Rightarrow> GenerateContentParameters" where
  "chat_request st =
     \<lparr>model = MODEL_NAME,
      contents = history st
        @ [\<lparr>content_role = Some User, parts = [TextPart (trim (inputMessage st))]\<rparr>],
      config = None\<rparr>"

text \<open>The guard \<open>if (!inputMessage.trim() || isChatting) return\<close>.\<close>

definition send_rejected :: "AppState \<Rightarrow> bool" where
  "send_rejected st = (trim (inputMessage st) = [] \<or> isChatting st)"

text \<open>Before the \<open>await\<close>: the user message is appended and the busy flag is set.\<close>

definition handleSendMessage_begin :: "AppState \<Rightarrow> AppState" where
  "handleSendMessage_begin st =
     st\<lparr>inputMessage := [],
        chatMessages := chatMessages st @ [\<lparr>role = User, text_field = trim (inputMessage st)\<rparr>],
        isChatting := True\<rparr>"

definition reply_message :: "js_error + string option \<Rightarrow> ChatMessage" where
  "reply_message outcome =
     (case outcome of
        Inr response_text \<Rightarrow>
          \<lparr>role = Model, text_field = or_else response_text ''I'm sorry, I couldn't process that.''\<rparr>
      | Inl err \<Rightarrow>
          \<lparr>role = Model, text_field = ''Sorry, I encountered an error. Please try again.''\<rparr>)"

text \<open>After the promise has settled: the reply or the fallback is appended, then \<open>finally\<close>.\<close>

definition handleSendMessage_settle :: "AppState \<Rightarrow> js_error + string option \<Rightarrow> AppState" where
  "handleSendMessage_settle st outcome =
     st\<lparr>chatMessages := chatMessages st @ [reply_message outcome], isChatting := False\<rparr>"

definition handleSendMessage :: "AppState \<Rightarrow> js_error + string option \<Rightarrow> AppState" where
  "handleSendMessage st outcome =
     (if send_rejected st then st
      else handleSendMessage_settle (handleSendMessage_begin st) outcome)"

subsection \<open>Gallery handlers\<close>

text \<open>
  \<open>deleteImage(id, e)\<close>. \<open>selectedImage?.id === id\<close> is false when nothing is selected.
  The call \<open>e.stopPropagation()\<close> keeps the click from reaching the tile.
\<close>

definition deleteImage :: "AppState \<Rightarrow> string \<Rightarrow> AppState" where
  "deleteImage st i =
     (let st' = st\<lparr>images := filter (\<lambda>img. id_field img \<noteq> i) (images st)\<rparr>
      in case selectedImage st of
           None \<Rightarrow> st'
         | Some sel \<Rightarrow>
             if id_field sel = i then st'\<lparr>selectedImage := None, chatMessages := []\<rparr> else st')"

text \<open>The click handler of a gallery tile: \<open>onClick={() => setSelectedImage(img)}\<close>.\<close>

definition selectImage :: "AppState \<Rightarrow> AnalysisResult \<Rightarrow> AppState" where
  "selectImage st img = st\<lparr>selectedImage := Some img\<rparr>"

subsection \<open>Sessions\<close>

text \<open>
  What can happen in a session, one event after the other: a file is uploaded (with the
  answers of the outside world), the text of the chat input changes, the send button is
  pressed (with the outcome of the request), the tile at a position of the gallery is
  clicked, the delete button of a tile is pressed.
\<close>

datatype event =
  Upload AnalyzeEnv
| Type string
| Send "js_error + string option"
| Click nat
| Delete string

fun step :: "AppState \<Rightarrow> event \<Rightarrow> AppState" where
  "step st (Upload env) = processImage st env"
| "step st (Type s) = st\<lparr>inputMessage := s\<rparr>"
| "step st (Send outcome) = handleSendMessage st outcome"
| "step st (Click n) = (if n < length (images st) then selectImage st (images st ! n) else st)"
| "step st (Delete i) = deleteImage st i"

definition run :: "AppState \<Rightarrow> event list \<Rightarrow> AppState" where
  "run st evs = foldl step st evs"

text \<open>The records constructed during a session, oldest first, whether deleted later or not.\<close>

fun created :: "event list \<Rightarrow> AnalysisResult list" where
  "created [] = []"
| "created (Upload env # evs) =
     (case analysis_outcome env of Inr r \<Rightarrow> r # created evs | Inl err \<Rightarrow> created evs)"
| "created (ev # evs) = created evs"

text \<open>The tokens \<open>Math.random().toString(36).substring(7)\<close> drawn for those records.\<close>

fun drawn_ids :: "event list \<Rightarrow> string list" where
  "drawn_ids [] = []"
| "drawn_ids (Upload env # evs) =
     (case analysis_outcome env of Inr r \<Rightarrow> random_id env # drawn_ids evs | Inl err \<Rightarrow> drawn_ids evs)"
| "drawn_ids (ev # evs) = drawn_ids evs"

subsection \<open>Notions used to state the properties\<close>

text \<open>
  An occurrence of \<open>Room Type:\<close> at position \<open>n\<close> of a text, upper and lower case
  letters taken as equal.
\<close>

definition ci_occurrence :: "string \<Rightarrow> nat \<Rightarrow> bool" where
  "ci_occurrence s n =
     (n + length ''Room Type:'' \<le> length s
      \<and> map canonicalize (take (length ''Room Type:'') (drop n s)) = map canonicalize ''Room Type:'')"

text \<open>The lines of a text: the pieces between line terminators.\<close>

fun split_lines :: "string \<Rightarrow> string list" where
  "split_lines [] = [[]]"
| "split_lines (c # cs) =
     (if is_line_terminator c then [] # split_lines cs
      else (case split_lines cs of l # ls \<Rightarrow> (c # l) # ls | [] \<Rightarrow> [[c]]))"

text \<open>The text has a line that begins with \<open>Room Type:\<close>, in any case of the letters.\<close>

definition has_room_type_line :: "string \<Rightarrow> bool" where
  "has_room_type_line s = list_ex (\<lambda>l. ci_occurrence l 0) (split_lines s)"

subsection \<open>Example inputs\<close>

definition LF :: string where
  "LF = [CHR 0x0A]"

definition bedroom_text :: string where
  "bedroom_text =
     ''Room Type: Bedroom'' @ LF @ LF @ ''Suggestions:'' @ LF @ ''- Use under-bed storage''"

definition bedroom_env :: AnalyzeEnv where
  "bedroom_env =
     \<lparr>file_type = ''image/png'',
      fileToBase64 = Inr ''data:image/png;base64,iVBORw0KGgo='',
      createObjectURL = ''blob:http://localhost/1'',
      generateContent = Inr (Some bedroom_text),
      random_id = ''k3f9x'',
      now = 1700000000000\<rparr>"

definition bedroom :: AnalysisResult where
  "bedroom =
     \<lparr>id_field = ''k3f9x'',
      imageUrl = ''blob:http://localhost/1'',
      timestamp = 1700000000000,
      suggestions = bedroom_text,
      roomType = ''Bedroom''\<rparr>"

definition kitchen :: AnalysisResult where
  "kitchen =
     \<lparr>id_field = ''p0q7m'',
      imageUrl = ''blob:http://localhost/2'',
      timestamp = 1700000060000,
      suggestions = ''Room Type: Kitchen'' @ LF @ LF @ ''Suggestions:'' @ LF @ ''- Hang the pans'',
      roomType = ''Kitchen''\<rparr>"

text \<open>The kitchen was analysed last: it is selected and greeted, the input holds a question.\<close>

definition kitchen_state :: AppState where
  "kitchen_state =
     \<lparr>images = [kitchen, bedroom], selectedImage = Some kitchen, isAnalyzing = False,
      chatMessages = [greeting ''Kitchen''],
      inputMessage = ''Where should I put my pots?'', isChatting = False, error = None\<rparr>"

text \<open>The service fails: the promise of \<open>generateContent\<close> is rejected.\<close>

definition offline_env :: AnalyzeEnv where
  "offline_env = bedroom_env\<lparr>generateContent := Inl (Thrown ''fetch failed'')\<rparr>"

text \<open>The service answers without text.\<close>

definition silent_env :: AnalyzeEnv where
  "silent_env = bedroom_env\<lparr>generateContent := Inr None\<rparr>"

text \<open>The service puts the room type in the middle of a sentence.\<close>

definition den_env :: AnalyzeEnv where
  "den_env = bedroom_env\<lparr>generateContent := Inr (Some ''My Room Type: Den'')\<rparr>"

text \<open>A second upload, a minute later, for which the same token is drawn.\<close>

definition same_token_env :: AnalyzeEnv where
  "same_token_env =
     bedroom_env\<lparr>createObjectURL := ''blob:http://localhost/2'', now := 1700000060000\<rparr>"

text \<open>The upload of the kitchen photo, a minute after the bedroom, with a token of its own.\<close>

definition kitchen_env :: AnalyzeEnv where
  "kitchen_env =
     \<lparr>file_type = ''image/jpeg'',
      fileToBase64 = Inr ''data:image/jpeg;base64,/9j/4AAQSkZJRg=='',
      createObjectURL = ''blob:http://localhost/2'',
      generateContent =
        Inr (Some (''Room Type: Kitchen'' @ LF @ LF @ ''Suggestions:'' @ LF @ ''- Hang the pans'')),
      random_id = ''p0q7m'',
      now = 1700000060000\<rparr>"

text \<open>
  A session: the bedroom is uploaded, an upload fails, the kitchen is uploaded, the tile
  of the bedroom is clicked.
\<close>

definition two_room_session :: "event list" where
  "two_room_session = [Upload bedroom_env, Upload offline_env, Upload kitchen_env, Click 1]"

section \<open>Properties\<close>

subsection \<open>The regular expression\<close>

lemma match_literal_Some_iff:
  "match_literal p s = Some rest \<longleftrightarrow>
     length p \<le> length s \<and> map canonicalize (take (length p) s) = map canonicalize p
     \<and> rest = drop (length p) s"
  by (induction p s rule: match_literal.induct) auto

lemma match_literal_None_iff:
  "match_literal p s = None \<longleftrightarrow>
     \<not> (length p \<le> length s \<and> map canonicalize (take (length p) s) = map canonicalize p)"
  by (induction p s rule: match_literal.induct) auto

lemma match_here_None_iff: "match_here s = None \<longleftrightarrow> \<not> ci_occurrence s 0"
proof -
  define p where "p = ''Room Type:''"
  have "match_here s = None \<longleftrightarrow> match_literal p s = None"
    unfolding match_here_def p_def by (simp split: option.split)
  also have "\<dots> \<longleftrightarrow>
      \<not> (length p \<le> length s \<and> map canonicalize (take (length p) s) = map canonicalize p)"
    by (rule match_literal_None_iff)
  also have "\<dots> \<longleftrightarrow> \<not> ci_occurrence s 0"
    unfolding ci_occurrence_def p_def by simp
  finally show ?thesis .
qed

lemma match_here_Some:
  assumes "match_here s = Some cap"
  shows "cap = takeWhile (\<lambda>c. \<not> is_line_terminator c)
             (dropWhile is_white_space (drop (length ''Room Type:'') s))"
proof -
  define p where "p = ''Room Type:''"
  from assms obtain rest where rest: "match_literal p s = Some rest"
    and cap: "cap = takeWhile (\<lambda>c. \<not> is_line_terminator c) (dropWhile is_white_space rest)"
    unfolding match_here_def p_def by (auto split: option.splits)
  from rest have "rest = drop (length p) s"
    by (simp add: match_literal_Some_iff)
  with cap show ?thesis unfolding p_def by simp
qed

lemma ci_occurrence_Nil: "\<not> ci_occurrence [] n"
  by (simp add: ci_occurrence_def)

lemma ci_occurrence_Suc: "ci_occurrence (c # cs) (Suc n) = ci_occurrence cs n"
  by (simp add: ci_occurrence_def)

lemma roomTypeMatch_None_iff: "roomTypeMatch s = None \<longleftrightarrow> (\<forall>n. \<not> ci_occurrence s n)"
proof (induction s)
  case Nil
  show ?case by (simp add: match_here_None_iff ci_occurrence_Nil)
next
  case (Cons c cs)
  have "(\<forall>n. \<not> ci_occurrence (c # cs) n) \<longleftrightarrow>
          \<not> ci_occurrence (c # cs) 0 \<and> (\<forall>n. \<not> ci_occurrence cs n)"
    by (metis ci_occurrence_Suc not0_implies_Suc)
  with Cons show ?case
    by (cases "match_here (c # cs)") (simp_all add: match_here_None_iff flip: match_here_None_iff)
qed

lemma roomTypeMatch_Some:
  "roomTypeMatch s = Some cap \<Longrightarrow>
     \<exists>n. ci_occurrence s n \<and> (\<forall>m<n. \<not> ci_occurrence s m)
       \<and> cap = takeWhile (\<lambda>c. \<not> is_line_terminator c)
                 (dropWhile is_white_space (drop (n + length ''Room Type:'') s))"
proof (induction s)
  case Nil
  then have "ci_occurrence [] 0"
    using match_here_None_iff [of "[]"] by auto
  then show ?case by (simp add: ci_occurrence_Nil)
next
  case (Cons c cs)
  show ?case
  proof (cases "match_here (c # cs)")
    case None
    with Cons.prems have "roomTypeMatch cs = Some cap" by simp
    from Cons.IH [OF this] obtain n where n: "ci_occurrence cs n"
      "\<forall>m<n. \<not> ci_occurrence cs m"
      "cap = takeWhile (\<lambda>c. \<not> is_line_terminator c)
                 (dropWhile is_white_space (drop (n + length ''Room Type:'') cs))"
      by blast
    from None have z: "\<not> ci_occurrence (c # cs) 0" by (simp add: match_here_None_iff)
    have "\<forall>m<Suc n. \<not> ci_occurrence (c # cs) m"
    proof (intro allI impI)
      fix m assume "m < Suc n"
      then show "\<not> ci_occurrence (c # cs) m"
        using z n(2) by (cases m) (simp_all add: ci_occurrence_Suc)
    qed
    with n(1,3) show ?thesis
      by (intro exI [of _ "Suc n"]) (simp add: ci_occurrence_Suc)
  next
    case (Some cap')
    with Cons.prems have "cap' = cap" by simp
    with Some have "ci_occurrence (c # cs) 0"
      and "cap = takeWhile (\<lambda>c. \<not> is_line_terminator c)
             (dropWhile is_white_space (drop (length ''Room Type:'') (c # cs)))"
      using match_here_None_iff [of "c # cs"] match_here_Some [of "c # cs" cap] by auto
    then show ?thesis by (intro exI [of _ 0]) simp
  qed
qed

subsection \<open>Analysis\<close>

lemma analysis_outcome_success:
  "fileToBase64 env = Inr b \<Longrightarrow> generateContent env = Inr t \<Longrightarrow>
     analysis_outcome env = Inr (newResult env t)"
  by (simp add: analysis_outcome_def)

lemma analysis_outcome_failure:
  "isl (fileToBase64 env) \<or> isl (generateContent env) \<Longrightarrow> isl (analysis_outcome env)"
  by (auto simp: analysis_outcome_def split: sum.splits)

lemma processImage_success:
  "analysis_outcome env = Inr r \<Longrightarrow>
     processImage st env =
       st\<lparr>images := r # images st, selectedImage := Some r, isAnalyzing := False,
          chatMessages := [greeting (roomType r)], error := None\<rparr>"
  by (simp add: processImage_def processImage_settle_def processImage_begin_def)

lemma processImage_failure:
  "analysis_outcome env = Inl e \<Longrightarrow>
     processImage st env =
       st\<lparr>isAnalyzing := False,
          error := Some ''Failed to analyze image. Please check your API key and connection.''\<rparr>"
  by (simp add: processImage_def processImage_settle_def processImage_begin_def)

text \<open>
  Claim C1. When the encoding and the service call both succeed, \<open>processImage\<close> puts
  exactly one new record at the front of the gallery, selects that record, and replaces
  the transcript by a single message of the model whose text contains the room type of
  the record.
\<close>

theorem analyze_success_prepends_and_selects:
  assumes "fileToBase64 env = Inr b" and "generateContent env = Inr t"
  shows "images (processImage st env) = newResult env t # images st
       \<and> selectedImage (processImage st env) = Some (newResult env t)
       \<and> chatMessages (processImage st env) =
           [\<lparr>role = Model,
             text_field = ''I've analyzed your '' @ roomType (newResult env t)
               @ ''. How can I help you further with organizing this space?''\<rparr>]"
  using assms
  by (simp add: processImage_success [OF analysis_outcome_success] greeting_def)

text \<open>
  The upload of the bedroom photo into the empty session: the gallery holds the one
  record, with room type \<open>Bedroom\<close> and the whole answer as suggestions.
\<close>

theorem analyze_success_witness:
  "fileToBase64 bedroom_env = Inr ''data:image/png;base64,iVBORw0KGgo=''
   \<and> images (processImage initial bedroom_env) = [bedroom]
   \<and> selectedImage (processImage initial bedroom_env) = Some bedroom
   \<and> chatMessages (processImage initial bedroom_env) =
       [\<lparr>role = Model,
         text_field = ''I've analyzed your Bedroom. How can I help you further with organizing this space?''\<rparr>]"
proof -
  have b: "fileToBase64 bedroom_env = Inr ''data:image/png;base64,iVBORw0KGgo=''"
    by (simp add: bedroom_env_def)
  have t: "generateContent bedroom_env = Inr (Some bedroom_text)"
    by (simp add: bedroom_env_def)
  have r: "newResult bedroom_env (Some bedroom_text) = bedroom"
    by (simp add: newResult_def bedroom_env_def bedroom_def or_else_def bedroom_text_def LF_def
        parse_roomType_def match_here_def trim_def canonicalize_def is_white_space_def
        is_line_terminator_def)
  have "roomType bedroom = ''Bedroom''" and "images initial = []"
    by (simp_all add: bedroom_def initial_def)
  with analyze_success_prepends_and_selects [OF b t, of initial] b show ?thesis
    unfolding r by simp
qed

text \<open>
  Claim C2. When the encoding or the service call fails, \<open>processImage\<close> leaves the
  gallery, the selection and the transcript as they were, and sets the error to a
  non-empty message.
\<close>

theorem analyze_failure_keeps_state:
  assumes "isl (fileToBase64 env) \<or> isl (generateContent env)"
  shows "images (processImage st env) = images st
       \<and> selectedImage (processImage st env) = selectedImage st
       \<and> chatMessages (processImage st env) = chatMessages st
       \<and> error (processImage st env) =
           Some ''Failed to analyze image. Please check your API key and connection.''
       \<and> the (error (processImage st env)) \<noteq> []"
proof -
  from analysis_outcome_failure [OF assms] obtain e where "analysis_outcome env = Inl e"
    by (cases "analysis_outcome env") auto
  then show ?thesis by (simp add: processImage_failure)
qed

text \<open>The service fails while the kitchen is selected: only the error banner changes.\<close>

theorem analyze_failure_witness:
  "isl (generateContent offline_env)
   \<and> images (processImage kitchen_state offline_env) = [kitchen, bedroom]
   \<and> selectedImage (processImage kitchen_state offline_env) = Some kitchen
   \<and> chatMessages (processImage kitchen_state offline_env) = [greeting ''Kitchen'']
   \<and> error (processImage kitchen_state offline_env) =
       Some ''Failed to analyze image. Please check your API key and connection.''"
proof -
  have f: "isl (generateContent offline_env)"
    by (simp add: offline_env_def)
  then have "isl (fileToBase64 offline_env) \<or> isl (generateContent offline_env)" ..
  from analyze_failure_keeps_state [OF this, of kitchen_state] f show ?thesis
    by (simp add: kitchen_state_def)
qed

text \<open>
  Claim C7. \<open>processImage\<close> sets the busy flag when it starts, and clears it when the
  promises have settled, whatever their outcome and whatever the state has become.
\<close>

theorem busy_flag_released:
  "isAnalyzing (processImage_begin st)
   \<and> \<not> isAnalyzing (processImage_settle st' env)
   \<and> \<not> isAnalyzing (processImage st env)"
  by (simp add: processImage_def processImage_settle_def processImage_begin_def Let_def)

text \<open>An upload that succeeds and an upload that fails, both from the empty session.\<close>

theorem busy_flag_witness:
  "isAnalyzing (processImage_begin initial)
   \<and> \<not> isAnalyzing (processImage initial bedroom_env)
   \<and> \<not> isAnalyzing (processImage initial offline_env)"
  using busy_flag_released [of initial initial bedroom_env]
    busy_flag_released [of initial initial offline_env]
  by simp

text \<open>
  Claim C5, as the code has it. After a successful service call the record is created and
  selected and no error is set. The text is searched for the first occurrence of
  \<open>Room Type:\<close>, in any case of the letters and at any position, not only at the start
  of a line. The room type is what follows that occurrence, white space skipped, up to
  the end of the line, and trimmed. When the text has no occurrence the room type is
  \<open>Unknown Room\<close>.
\<close>

theorem roomType_from_first_occurrence:
  assumes "fileToBase64 env = Inr b" and "generateContent env = Inr t"
  shows "selectedImage (processImage st env) = Some (newResult env t)
       \<and> images (processImage st env) = newResult env t # images st
       \<and> error (processImage st env) = None
       \<and> suggestions (newResult env t) = or_else t ''No suggestions generated.''
       \<and> (if \<exists>n. ci_occurrence (suggestions (newResult env t)) n
          then \<exists>n. ci_occurrence (suggestions (newResult env t)) n
                 \<and> (\<forall>m<n. \<not> ci_occurrence (suggestions (newResult env t)) m)
                 \<and> roomType (newResult env t) =
                     trim (takeWhile (\<lambda>c. \<not> is_line_terminator c)
                       (dropWhile is_white_space
                         (drop (n + length ''Room Type:'') (suggestions (newResult env t)))))
          else roomType (newResult env t) = ''Unknown Room'')"
proof -
  define s where "s = suggestions (newResult env t)"
  have s: "s = or_else t ''No suggestions generated.''"
    and rt: "roomType (newResult env t) = parse_roomType s"
    by (simp_all add: s_def newResult_def Let_def)
  have "if \<exists>n. ci_occurrence s n
        then \<exists>n. ci_occurrence s n \<and> (\<forall>m<n. \<not> ci_occurrence s m)
               \<and> parse_roomType s =
                   trim (takeWhile (\<lambda>c. \<not> is_line_terminator c)
                     (dropWhile is_white_space (drop (n + length ''Room Type:'') s)))
        else parse_roomType s = ''Unknown Room''"
  proof (cases "roomTypeMatch s")
    case None
    then show ?thesis
      by (simp add: parse_roomType_def roomTypeMatch_None_iff [THEN iffD1])
  next
    case (Some cap)
    from roomTypeMatch_Some [OF this] obtain n where n: "ci_occurrence s n"
      "\<forall>m<n. \<not> ci_occurrence s m"
      "cap = takeWhile (\<lambda>c. \<not> is_line_terminator c)
               (dropWhile is_white_space (drop (n + length ''Room Type:'') s))"
      by blast
    have "parse_roomType s = trim cap"
      by (simp add: parse_roomType_def Some)
    with n have "\<exists>n. ci_occurrence s n \<and> (\<forall>m<n. \<not> ci_occurrence s m)
               \<and> parse_roomType s =
                   trim (takeWhile (\<lambda>c. \<not> is_line_terminator c)
                     (dropWhile is_white_space (drop (n + length ''Room Type:'') s)))"
      by blast
    moreover from n(1) have "\<exists>n. ci_occurrence s n" ..
    ultimately show ?thesis by (simp only: if_True)
  qed
  moreover from assms have "selectedImage (processImage st env) = Some (newResult env t)"
    and "images (processImage st env) = newResult env t # images st"
    and "error (processImage st env) = None"
    by (simp_all add: processImage_success [OF analysis_outcome_success])
  ultimately show ?thesis
    using s unfolding rt s_def [symmetric] by blast
qed

text \<open>An answer with the room type inside a sentence, and an answer without text.\<close>

theorem roomType_from_first_occurrence_witness:
  "generateContent den_env = Inr (Some ''My Room Type: Den'')
   \<and> ci_occurrence ''My Room Type: Den'' 3
   \<and> map_option roomType (selectedImage (processImage initial den_env)) = Some ''Den''
   \<and> map_option roomType (selectedImage (processImage initial silent_env)) = Some ''Unknown Room''"
proof -
  have b: "fileToBase64 den_env = Inr ''data:image/png;base64,iVBORw0KGgo=''"
    and t: "generateContent den_env = Inr (Some ''My Room Type: Den'')"
    and b': "fileToBase64 silent_env = Inr ''data:image/png;base64,iVBORw0KGgo=''"
    and t': "generateContent silent_env = Inr None"
    by (simp_all add: den_env_def silent_env_def bedroom_env_def)
  have o: "ci_occurrence ''My Room Type: Den'' 3"
    by code_simp
  have r: "roomType (newResult den_env (Some ''My Room Type: Den'')) = ''Den''"
    "roomType (newResult silent_env None) = ''Unknown Room''"
    by code_simp+
  from roomType_from_first_occurrence [OF b t, of initial]
    roomType_from_first_occurrence [OF b' t', of initial] t o r
  show ?thesis by simp
qed

text \<open>The answer of the bedroom upload does have a line that begins with \<open>Room Type:\<close>.\<close>

lemma has_room_type_line_bedroom: "has_room_type_line bedroom_text"
  by code_simp

text \<open>
  Claim C5 as it is written asks for a line that begins with \<open>Room Type:\<close> and for
  \<open>Unknown Room\<close> when no line does. The answer \<open>My Room Type: Den\<close> has no such
  line, and its room type is \<open>Den\<close>.
\<close>

theorem roomType_without_line_start:
  "\<not> has_room_type_line ''My Room Type: Den''
   \<and> generateContent den_env = Inr (Some ''My Room Type: Den'')
   \<and> map_option roomType (selectedImage (processImage initial den_env)) = Some ''Den''
   \<and> ''Den'' \<noteq> ''Unknown Room''"
  by code_simp

text \<open>
  Claim C10. When the service call succeeds but the response has no text (\<open>undefined\<close>
  or the empty string), \<open>processImage\<close> still creates and selects a record: its
  suggestions are the fixed string \<open>No suggestions generated.\<close>, its room type is
  \<open>Unknown Room\<close>, and no error is set.
\<close>

theorem empty_response_still_succeeds:
  assumes "fileToBase64 env = Inr b" and "generateContent env = Inr t"
    and "t = None \<or> t = Some []"
  shows "images (processImage st env) = newResult env t # images st
       \<and> selectedImage (processImage st env) = Some (newResult env t)
       \<and> suggestions (newResult env t) = ''No suggestions generated.''
       \<and> roomType (newResult env t) = ''Unknown Room''
       \<and> error (processImage st env) = None"
proof -
  have "parse_roomType ''No suggestions generated.'' = ''Unknown Room''"
    by code_simp
  moreover from assms(3) have "or_else t ''No suggestions generated.'' = ''No suggestions generated.''"
    by (auto simp: or_else_def)
  ultimately have "suggestions (newResult env t) = ''No suggestions generated.''"
    and "roomType (newResult env t) = ''Unknown Room''"
    by (simp_all add: newResult_def)
  with assms(1,2) show ?thesis
    by (simp add: processImage_success [OF analysis_outcome_success])
qed

text \<open>The service answers without text in the empty session.\<close>

theorem empty_response_witness:
  "generateContent silent_env = Inr None
   \<and> map suggestions (images (processImage initial silent_env)) = [''No suggestions generated.'']
   \<and> map roomType (images (processImage initial silent_env)) = [''Unknown Room'']
   \<and> map_option id_field (selectedImage (processImage initial silent_env)) = Some ''k3f9x''
   \<and> error (processImage initial silent_env) = None"
proof -
  have b: "fileToBase64 silent_env = Inr ''data:image/png;base64,iVBORw0KGgo=''"
    and t: "generateContent silent_env = Inr None"
    by (simp_all add: silent_env_def bedroom_env_def)
  have "id_field (newResult silent_env None) = ''k3f9x''"
    by (simp add: newResult_def silent_env_def bedroom_env_def Let_def)
  moreover have "images initial = []"
    by (simp add: initial_def)
  ultimately show ?thesis
    using empty_response_still_succeeds [OF b t, of initial] t by simp
qed

subsection \<open>Gallery\<close>

text \<open>
  Claim C8. \<open>deleteImage\<close> removes the records with the given id from the gallery and
  keeps the others in their order. When the selected record has that id, the selection
  becomes empty and the transcript becomes empty; otherwise both stay as they were.
\<close>

theorem delete_removes_and_clears:
  "images (deleteImage st i) = filter (\<lambda>img. id_field img \<noteq> i) (images st)
   \<and> i \<notin> id_field ` set (images (deleteImage st i))
   \<and> (if \<exists>sel. selectedImage st = Some sel \<and> id_field sel = i
      then selectedImage (deleteImage st i) = None \<and> chatMessages (deleteImage st i) = []
      else selectedImage (deleteImage st i) = selectedImage st
         \<and> chatMessages (deleteImage st i) = chatMessages st)"
  by (auto simp: deleteImage_def Let_def split: option.splits)

text \<open>Deleting the selected kitchen, and deleting the bedroom that is not selected.\<close>

theorem delete_witness:
  "images (deleteImage kitchen_state ''p0q7m'') = [bedroom]
   \<and> selectedImage (deleteImage kitchen_state ''p0q7m'') = None
   \<and> chatMessages (deleteImage kitchen_state ''p0q7m'') = []
   \<and> images (deleteImage kitchen_state ''k3f9x'') = [kitchen]
   \<and> selectedImage (deleteImage kitchen_state ''k3f9x'') = Some kitchen
   \<and> chatMessages (deleteImage kitchen_state ''k3f9x'') = [greeting ''Kitchen'']"
  using delete_removes_and_clears [of kitchen_state "''p0q7m''"]
    delete_removes_and_clears [of kitchen_state "''k3f9x''"]
  by (simp add: kitchen_state_def kitchen_def bedroom_def)

text \<open>
  Claim C4 says that selecting a record of the gallery clears the transcript. The click
  handler of a tile only sets the selection: after a click on the bedroom, while the
  kitchen is selected, the bedroom is selected and the greeting for the kitchen is still
  the transcript.
\<close>

theorem select_keeps_transcript:
  "images kitchen_state = [kitchen, bedroom]
   \<and> step kitchen_state (Click 1) = selectImage kitchen_state bedroom
   \<and> selectedImage (selectImage kitchen_state bedroom) = Some bedroom
   \<and> chatMessages (selectImage kitchen_state bedroom) = [greeting ''Kitchen'']"
  by code_simp

subsection \<open>Conversation\<close>

text \<open>
  Claim C6. When the input is not empty after trimming and no chat is in flight,
  \<open>handleSendMessage\<close> makes the transcript two messages longer: the trimmed input as
  a user message, which is there before the request settles, and then one message of the
  model. Its text is the reply of the service, the fixed text
  \<open>I'm sorry, I couldn't process that.\<close> when the reply has no text, and the fixed text
  \<open>Sorry, I encountered an error. Please try again.\<close> when the request fails.
\<close>

theorem send_appends_two:
  assumes "trim (inputMessage st) \<noteq> []" and "\<not> isChatting st"
  shows "chatMessages (handleSendMessage_begin st) =
           chatMessages st @ [\<lparr>role = User, text_field = trim (inputMessage st)\<rparr>]
       \<and> chatMessages (handleSendMessage st outcome) =
           chatMessages st
           @ [\<lparr>role = User, text_field = trim (inputMessage st)\<rparr>,
              \<lparr>role = Model,
               text_field =
                 (case outcome of
                    Inr (Some reply) \<Rightarrow>
                      if reply = [] then ''I'm sorry, I couldn't process that.'' else reply
                  | Inr None \<Rightarrow> ''I'm sorry, I couldn't process that.''
                  | Inl err \<Rightarrow> ''Sorry, I encountered an error. Please try again.'')\<rparr>]
       \<and> length (chatMessages (handleSendMessage st outcome)) = length (chatMessages st) + 2"
  using assms
  by (simp add: handleSendMessage_def send_rejected_def handleSendMessage_settle_def
      handleSendMessage_begin_def reply_message_def or_else_def split: sum.split option.split)

text \<open>The question about the pots, answered and failed.\<close>

theorem send_witness:
  "trim (inputMessage kitchen_state) \<noteq> [] \<and> \<not> isChatting kitchen_state
   \<and> chatMessages (handleSendMessage kitchen_state (Inr (Some ''On a rail by the stove.''))) =
       [greeting ''Kitchen'',
        \<lparr>role = User, text_field = ''Where should I put my pots?''\<rparr>,
        \<lparr>role = Model, text_field = ''On a rail by the stove.''\<rparr>]
   \<and> chatMessages (handleSendMessage kitchen_state (Inl (Thrown ''fetch failed''))) =
       [greeting ''Kitchen'',
        \<lparr>role = User, text_field = ''Where should I put my pots?''\<rparr>,
        \<lparr>role = Model, text_field = ''Sorry, I encountered an error. Please try again.''\<rparr>]"
proof -
  have t: "trim (inputMessage kitchen_state) = ''Where should I put my pots?''"
    by (simp add: kitchen_state_def trim_def is_white_space_def is_line_terminator_def)
  then have ne: "trim (inputMessage kitchen_state) \<noteq> []" by simp
  have nb: "\<not> isChatting kitchen_state" by (simp add: kitchen_state_def)
  have c: "chatMessages kitchen_state = [greeting ''Kitchen'']" by (simp add: kitchen_state_def)
  from send_appends_two [OF ne nb, of "Inr (Some ''On a rail by the stove.'')"]
    send_appends_two [OF ne nb, of "Inl (Thrown ''fetch failed'')"] ne nb
  show ?thesis unfolding t c by simp
qed

text \<open>No request of \<open>handleSendMessage\<close> carries a system instruction, whatever the state.\<close>

lemma chat_request_config: "request_systemInstruction (chat_request st) = None"
  by (simp add: request_systemInstruction_def chat_request_def)

text \<open>
  Claim C3 says that the request of \<open>handleSendMessage\<close> carries a system instruction
  with the room type and the suggestions of the selected record. The handler builds that
  instruction, but only as the configuration of the local \<open>chat\<close>, which it never uses:
  the request it sends has the model and the contents and no \<open>config\<close>. Here the
  kitchen is selected and the question about the pots is sent.
\<close>

theorem chat_request_without_system_instruction:
  "\<not> send_rejected kitchen_state
   \<and> map_option roomType (selectedImage kitchen_state) = Some ''Kitchen''
   \<and> config (chat_request kitchen_state) = None
   \<and> request_systemInstruction (chat_request kitchen_state) = None
   \<and> contents (chat_request kitchen_state) =
       [\<lparr>content_role = Some Model, parts = [TextPart (text_field (greeting ''Kitchen''))]\<rparr>,
        \<lparr>content_role = Some User, parts = [TextPart ''Where should I put my pots?'']\<rparr>]
   \<and> chat_config (chat kitchen_state) =
       Some \<lparr>systemInstruction =
         Some (''You are an expert interior organizer. You are currently helping the user with their Kitchen. Use the previous analysis as context: ''
               @ suggestions kitchen)\<rparr>"
  by code_simp

subsection \<open>Identifiers\<close>

lemma analysis_outcome_id:
  "analysis_outcome env = Inr r \<Longrightarrow> id_field r = random_id env"
  by (auto simp: analysis_outcome_def newResult_def Let_def split: sum.splits)

lemma created_ids: "map id_field (created evs) = drawn_ids evs"
  by (induction evs rule: created.induct) (auto simp: analysis_outcome_id split: sum.splits)

lemma images_step_Upload:
  "images (processImage st env) =
     (case analysis_outcome env of Inr r \<Rightarrow> r # images st | Inl e \<Rightarrow> images st)"
  by (simp add: processImage_def processImage_settle_def processImage_begin_def split: sum.splits)

lemma images_step_Send: "images (handleSendMessage st outcome) = images st"
  by (simp add: handleSendMessage_def handleSendMessage_settle_def handleSendMessage_begin_def)

lemma images_step_Click: "images (selectImage st img) = images st"
  by (simp add: selectImage_def)

lemma images_step_Delete:
  "images (deleteImage st i) = filter (\<lambda>img. id_field img \<noteq> i) (images st)"
  by (simp add: deleteImage_def Let_def split: option.splits)

lemma run_Cons: "run st (ev # evs) = run (step st ev) evs"
  by (simp add: run_def)

lemma gallery_ids_distinct:
  "distinct (drawn_ids evs @ map id_field (images st)) \<Longrightarrow>
     distinct (map id_field (images (run st evs)))"
proof (induction evs arbitrary: st)
  case Nil
  then show ?case by (simp add: run_def)
next
  case (Cons ev evs)
  have "distinct (drawn_ids evs @ map id_field (images (step st ev)))"
  proof (cases ev)
    case (Upload env)
    with Cons.prems show ?thesis
      by (cases "analysis_outcome env")
         (auto simp: images_step_Upload analysis_outcome_id)
  next
    case (Type s)
    with Cons.prems show ?thesis by simp
  next
    case (Send outcome)
    with Cons.prems show ?thesis by (simp add: images_step_Send)
  next
    case (Click n)
    with Cons.prems show ?thesis by (simp add: images_step_Click)
  next
    case (Delete i)
    with Cons.prems show ?thesis
      by (auto simp: images_step_Delete distinct_map_filter)
  qed
  from Cons.IH [OF this] show ?case by (simp only: run_Cons)
qed

text \<open>
  No handler changes a record or makes one up: what is in the gallery, and what is
  selected, was created by an upload of the session.
\<close>

lemma selected_step:
  "set (images st) \<union> set_option (selectedImage st) \<subseteq> A \<Longrightarrow>
     set (images (step st ev)) \<union> set_option (selectedImage (step st ev))
       \<subseteq> A \<union> set (created [ev])"
proof (cases ev)
  case (Upload env)
  assume "set (images st) \<union> set_option (selectedImage st) \<subseteq> A"
  with Upload show ?thesis
    by (cases "analysis_outcome env")
       (auto simp: processImage_success processImage_failure)
next
  case (Type s)
  assume "set (images st) \<union> set_option (selectedImage st) \<subseteq> A"
  with Type show ?thesis by auto
next
  case (Send outcome)
  assume "set (images st) \<union> set_option (selectedImage st) \<subseteq> A"
  with Send show ?thesis
    by (auto simp: handleSendMessage_def handleSendMessage_settle_def handleSendMessage_begin_def)
next
  case (Click n)
  assume "set (images st) \<union> set_option (selectedImage st) \<subseteq> A"
  with Click show ?thesis
    by (auto simp: selectImage_def)
next
  case (Delete i)
  assume "set (images st) \<union> set_option (selectedImage st) \<subseteq> A"
  with Delete show ?thesis
    by (auto simp: deleteImage_def Let_def split: option.splits if_splits)
qed

lemma created_Cons: "created (ev # evs) = created [ev] @ created evs"
  by (cases ev) (auto split: sum.splits)

lemma gallery_records_created:
  "set (images st) \<union> set_option (selectedImage st) \<subseteq> A \<Longrightarrow>
     set (images (run st evs)) \<union> set_option (selectedImage (run st evs))
       \<subseteq> A \<union> set (created evs)"
proof (induction evs arbitrary: st A)
  case Nil
  then show ?case by (simp add: run_def)
next
  case (Cons ev evs)
  from selected_step [OF Cons.prems]
  have "set (images (step st ev)) \<union> set_option (selectedImage (step st ev))
          \<subseteq> A \<union> set (created [ev])" .
  from Cons.IH [OF this] have "set (images (run (step st ev) evs))
      \<union> set_option (selectedImage (run (step st ev) evs))
      \<subseteq> (A \<union> set (created [ev])) \<union> set (created evs)" .
  moreover have "set (created (ev # evs)) = set (created [ev]) \<union> set (created evs)"
    by (subst created_Cons) simp
  ultimately show ?case
    unfolding run_Cons by blast
qed

text \<open>
  Claim C9, as the code has it. The id of a record is the token drawn for it, and nothing
  compares it with earlier ids. When the tokens drawn in a session are pairwise distinct,
  any two records created in the session, at different positions, have different ids.
  The gallery and the selection hold created records only, and the ids of the gallery
  are pairwise distinct.
\<close>

theorem ids_distinct_when_draws_distinct:
  assumes "distinct (drawn_ids evs)"
  shows "map id_field (created evs) = drawn_ids evs
       \<and> distinct (map id_field (created evs))
       \<and> (\<forall>i<length (created evs). \<forall>j<length (created evs).
             i \<noteq> j \<longrightarrow> id_field (created evs ! i) \<noteq> id_field (created evs ! j))
       \<and> set (images (run initial evs)) \<subseteq> set (created evs)
       \<and> set_option (selectedImage (run initial evs)) \<subseteq> set (created evs)
       \<and> distinct (map id_field (images (run initial evs)))"
proof -
  have i: "images initial = []" and s: "selectedImage initial = None"
    by (simp_all add: initial_def)
  from assms i have "distinct (drawn_ids evs @ map id_field (images initial))" by simp
  then have gallery: "distinct (map id_field (images (run initial evs)))"
    by (rule gallery_ids_distinct)
  from assms have d: "distinct (map id_field (created evs))"
    by (simp add: created_ids)
  then have pairwise: "\<forall>i<length (created evs). \<forall>j<length (created evs).
      i \<noteq> j \<longrightarrow> id_field (created evs ! i) \<noteq> id_field (created evs ! j)"
    by (simp add: distinct_conv_nth)
  from i s have "set (images initial) \<union> set_option (selectedImage initial) \<subseteq> {}"
    by simp
  from gallery_records_created [OF this, of evs]
  have "set (images (run initial evs)) \<subseteq> set (created evs)"
    and "set_option (selectedImage (run initial evs)) \<subseteq> set (created evs)"
    by simp_all
  with gallery d pairwise show ?thesis
    by (simp only: created_ids simp_thms)
qed

text \<open>
  A session that creates two records, the bedroom and the kitchen, with the tokens
  \<open>k3f9x\<close> and \<open>p0q7m\<close>: both are in the gallery and their ids differ.
\<close>

theorem ids_distinct_witness:
  "distinct (drawn_ids two_room_session)
   \<and> created two_room_session = [bedroom, kitchen]
   \<and> map id_field (created two_room_session) = [''k3f9x'', ''p0q7m'']
   \<and> id_field (created two_room_session ! 0) \<noteq> id_field (created two_room_session ! 1)
   \<and> images (run initial two_room_session) = [kitchen, bedroom]
   \<and> selectedImage (run initial two_room_session) = Some bedroom
   \<and> distinct (map id_field (images (run initial two_room_session)))"
proof -
  have d: "drawn_ids two_room_session = [''k3f9x'', ''p0q7m'']"
    by code_simp
  have c: "created two_room_session = [bedroom, kitchen]"
    by code_simp
  have g: "images (run initial two_room_session) = [kitchen, bedroom]"
    and sel: "selectedImage (run initial two_room_session) = Some bedroom"
    by code_simp+
  from d have h: "distinct (drawn_ids two_room_session)"
    by simp
  from ids_distinct_when_draws_distinct [OF h] h c sel show ?thesis
    unfolding d by (simp add: g)
qed

text \<open>
  Claim C9 as it is written asks for distinct ids for any two records created in a
  session. Two uploads for which the same token is drawn create two different records
  with the same id, and both are in the gallery.
\<close>

theorem ids_can_collide:
  "created [Upload bedroom_env, Upload same_token_env] =
     [bedroom, bedroom\<lparr>imageUrl := ''blob:http://localhost/2'', timestamp := 1700000060000\<rparr>]
   \<and> images (run initial [Upload bedroom_env, Upload same_token_env]) =
     [bedroom\<lparr>imageUrl := ''blob:http://localhost/2'', timestamp := 1700000060000\<rparr>, bedroom]
   \<and> bedroom \<noteq> bedroom\<lparr>imageUrl := ''blob:http://localhost/2'', timestamp := 1700000060000\<rparr>
   \<and> id_field bedroom =
       id_field (bedroom\<lparr>imageUrl := ''blob:http://localhost/2'', timestamp := 1700000060000\<rparr>)"
  by code_simp

end
